theory Spec2Isabelle
  imports Main
begin

section \<open>Python values and the exceptions the stack can raise\<close>

text \<open>
  The pipeline stack of \<^verbatim>\<open>cdk_workshop/pipeline_stack.py\<close> reads its configuration from
  the CDK context, a JSON document. A context value is therefore any JSON value as Python
  sees it: \<^verbatim>\<open>None\<close>, a bool, an int, a str, a list or a dict. A dict is an association
  list, looked up with \<open>map_of\<close>.
  Numbers are integers here. A context is taken as the binding hands it to Python, after
  whatever the binding does to the stored document on the way.
\<close>

datatype pyval =
    PyNone
  | PyBool bool
  | PyInt int
  | PyStr string
  | PyList "pyval list"
  | PyDict "(string \<times> pyval) list"

datatype py_error =
    TypeError
  | KeyError string
  | AttributeError string
  | RuntimeError

text \<open>Python truth value testing, as used by \<^verbatim>\<open>x or "qa"\<close>.\<close>

fun truthy :: "pyval \<Rightarrow> bool" where
  "truthy PyNone = False"
| "truthy (PyBool b) = b"
| "truthy (PyInt i) = (i \<noteq> 0)"
| "truthy (PyStr s) = (s \<noteq> [])"
| "truthy (PyList xs) = (xs \<noteq> [])"
| "truthy (PyDict kvs) = (kvs \<noteq> [])"

definition py_or :: "pyval \<Rightarrow> pyval \<Rightarrow> pyval" where
  "py_or a b = (if truthy a then a else b)"

text \<open>
  \<^verbatim>\<open>v[k]\<close> with a string key: a dict answers with the value or raises KeyError; every other
  value raises TypeError (None is not subscriptable, a str or a list wants integer indices).
\<close>

definition subscript :: "pyval \<Rightarrow> string \<Rightarrow> py_error + pyval" where
  "subscript v k =
     (case v of
        PyDict kvs \<Rightarrow> (case map_of kvs k of None \<Rightarrow> Inl (KeyError k) | Some x \<Rightarrow> Inr x)
      | _ \<Rightarrow> Inl TypeError)"

definition bind_err :: "py_error + 'a \<Rightarrow> ('a \<Rightarrow> py_error + 'b) \<Rightarrow> py_error + 'b" where
  "bind_err m f = (case m of Inl e \<Rightarrow> Inl e | Inr a \<Rightarrow> f a)"

text \<open>
  \<^verbatim>\<open>self.node.try_get_context(key)\<close>: the value stored under the key, \<^verbatim>\<open>None\<close> when there is
  none. The binding declares \<^verbatim>\<open>key: str\<close>; a key that is not a string is rejected with a
  TypeError.
\<close>

type_synonym node_context = "(string \<times> pyval) list"

definition try_get_context :: "node_context \<Rightarrow> pyval \<Rightarrow> py_error + pyval" where
  "try_get_context ctx key =
     (case key of
        PyStr k \<Rightarrow> Inr (case map_of ctx k of None \<Rightarrow> PyNone | Some v \<Rightarrow> v)
      | _ \<Rightarrow> Inl TypeError)"

section \<open>Descriptors\<close>

text \<open>
  The constructors of the CDK library are record constructors here: they keep the arguments
  they are given. What the library refuses is kept apart, in the record \<open>library\<close> below.
  The source descriptor and the build environment live in an object store, and a step holds
  their addresses, so that two steps sharing one instance can be told from two steps holding
  equal values.
\<close>

datatype SecretValue = secrets_manager string

record CodePipelineSource =
  repo_string :: pyval
  branch :: pyval
  authentication :: SecretValue

definition git_hub :: "pyval \<Rightarrow> pyval \<Rightarrow> SecretValue \<Rightarrow> CodePipelineSource" where
  "git_hub r b a = \<lparr>repo_string = r, branch = b, authentication = a\<rparr>"

datatype LinuxBuildImage = STANDARD_5_0 | STANDARD_6_0 | STANDARD_7_0

datatype ComputeType = SMALL | MEDIUM | LARGE | X2_LARGE

record BuildEnvironment =
  build_image :: LinuxBuildImage
  compute_type :: ComputeType
  privileged :: bool

datatype obj = OSource CodePipelineSource | OEnv BuildEnvironment

type_synonym ref = nat

definition alloc :: "obj \<Rightarrow> obj list \<Rightarrow> ref \<times> obj list" where
  "alloc x h = (length h, h @ [x])"

definition deref :: "obj list \<Rightarrow> ref \<Rightarrow> obj option" where
  "deref h r = (if r < length h then Some (h ! r) else None)"

datatype StepClass = ShellStepClass | CodeBuildStepClass

record Step =
  step_class :: StepClass
  step_id :: string
  input :: ref
  env :: "(string \<times> pyval) list"
  build_environment :: "ref option"
  project_name :: "string option"
  install_commands :: "string list"
  commands :: "string list"

text \<open>
  \<^verbatim>\<open>ShellStep(id, input=, env=, install_commands=, commands=)\<close> and
  \<^verbatim>\<open>CodeBuildStep(id, input=, build_environment=, project_name=, install_commands=, commands=)\<close>.
  An argument that is not passed is \<open>[]\<close> or \<open>None\<close>.
\<close>

definition ShellStep ::
  "string \<Rightarrow> ref \<Rightarrow> (string \<times> pyval) list \<Rightarrow> string list \<Rightarrow> string list \<Rightarrow> Step" where
  "ShellStep i src e ins cmds =
     \<lparr>step_class = ShellStepClass, step_id = i, input = src, env = e,
      build_environment = None, project_name = None,
      install_commands = ins, commands = cmds\<rparr>"

definition CodeBuildStep ::
  "string \<Rightarrow> ref \<Rightarrow> ref \<Rightarrow> string \<Rightarrow> string list \<Rightarrow> string list \<Rightarrow> Step" where
  "CodeBuildStep i src be pn ins cmds =
     \<lparr>step_class = CodeBuildStepClass, step_id = i, input = src, env = [],
      build_environment = Some be, project_name = Some pn,
      install_commands = ins, commands = cmds\<rparr>"

record DeployStage =
  stage_construct_id :: string
  stage_environment_type :: pyval

record StageDeployment =
  stage :: DeployStage
  pre :: "Step list"

record CodePipeline =
  pipeline_name :: pyval
  synth :: Step
  stages :: "StageDeployment list"

text \<open>\<^verbatim>\<open>pipeline.add_stage(stage, pre=steps)\<close> appends the stage with its pre-steps.\<close>

definition add_stage :: "CodePipeline \<Rightarrow> DeployStage \<Rightarrow> Step list \<Rightarrow> CodePipeline" where
  "add_stage p stg steps = p\<lparr>stages := stages p @ [\<lparr>stage = stg, pre = steps\<rparr>]\<rparr>"

section \<open>The stack object\<close>

text \<open>
  The attributes \<^verbatim>\<open>self.context\<close> and \<^verbatim>\<open>self.source_stage\<close> are unset (\<open>None\<close>) until
  \<^verbatim>\<open>__init__\<close> assigns them. \<open>pipeline\<close> is the child construct registered under the id
  \<^verbatim>\<open>"Pipeline"\<close> in the scope of the stack: \<open>None\<close> as long as no pipeline is registered.
\<close>

record PipelineStack =
  self_context :: "pyval option"
  self_source_stage :: "ref option"
  pipeline :: "CodePipeline option"

section \<open>The library behind the constructor\<close>

text \<open>
  Three calls of \<^verbatim>\<open>__init__\<close> hand values to the CDK library that the library may refuse:
  the Stack constructor of line 23 is given the construct id, \<^verbatim>\<open>Source.git_hub\<close> the
  repository name and the branch, \<^verbatim>\<open>CodePipeline\<close> the pipeline name. The library is not
  code of this repository, so what it refuses is a parameter of the constructor: each
  field answers \<open>None\<close> when the call returns and the exception when it raises.
  \<open>Stack_init\<close> is the Stack constructor for the scope and keyword arguments at hand, as a
  function of the construct id.
\<close>

record library =
  Stack_init :: "string \<Rightarrow> py_error option"
  git_hub_check :: "pyval \<Rightarrow> pyval \<Rightarrow> py_error option"
  CodePipeline_check :: "pyval \<Rightarrow> py_error option"

text \<open>A library that refuses nothing.\<close>

definition accepting_library :: library where
  "accepting_library =
     \<lparr>Stack_init = (\<lambda>i. None), git_hub_check = (\<lambda>n b. None), CodePipeline_check = (\<lambda>n. None)\<rparr>"

text \<open>
  The refusals of the CDK library that the properties below refer to. A stack is named after
  its construct id, and a stack name starts with a letter and goes on with letters, digits
  and hyphens; \<^verbatim>\<open>repo_string\<close> is declared \<^verbatim>\<open>str\<close> and must read \<^verbatim>\<open>owner/repo\<close>;
  \<^verbatim>\<open>pipeline_name\<close> is declared an optional \<^verbatim>\<open>str\<close>. An argument of the wrong type is a
  TypeError of the binding, a refusal by the library itself a RuntimeError.
\<close>

definition valid_stack_name :: "string \<Rightarrow> bool" where
  "valid_stack_name s =
     (case s of
        [] \<Rightarrow> False
      | c # cs \<Rightarrow>
          c \<in> set ''abcdefghijklmnopqrstuvwxyzABCDEFGHIJKLMNOPQRSTUVWXYZ''
          \<and> list_all
               (\<lambda>d. d \<in> set ''abcdefghijklmnopqrstuvwxyzABCDEFGHIJKLMNOPQRSTUVWXYZ0123456789-'')
               cs)"

definition cdk_library :: library where
  "cdk_library =
     \<lparr>Stack_init = (\<lambda>i. if valid_stack_name i then None else Some RuntimeError),
      git_hub_check = (\<lambda>n b.
         case n of
           PyStr s \<Rightarrow>
             if length (filter (\<lambda>c. c = CHR ''/'') s) = 1 then None else Some RuntimeError
         | _ \<Rightarrow> Some TypeError),
      CodePipeline_check = (\<lambda>n.
         case n of PyStr s \<Rightarrow> None | PyNone \<Rightarrow> None | _ \<Rightarrow> Some TypeError)\<rparr>"

section \<open>create_code_quality_steps (lines 66 to 162)\<close>

text \<open>
  The build environment is constructed once (line 78) and its address is passed to each of
  the five steps. \<^verbatim>\<open>self.source_stage\<close> is read for each step and is the same attribute
  each time; an unset attribute raises AttributeError at the first read, after the
  environment has been constructed.
\<close>

definition create_code_quality_steps ::
  "PipelineStack \<Rightarrow> obj list \<Rightarrow> (py_error + Step list) \<times> obj list" where
  "create_code_quality_steps self h =
    (let steps = [];
         install_steps =
           [''npm install -g aws-cdk'',
            ''python3 -m venv .env'',
            ''chmod +x .env/bin/activate'',
            ''. .env/bin/activate'',
            ''pip3 install -r requirements.txt'',
            ''pip3 install -r requirements-dev.txt''];
         (environment, h) =
           alloc (OEnv \<lparr>build_image = STANDARD_7_0, compute_type = SMALL, privileged = True\<rparr>) h
     in case self_source_stage self of
          None \<Rightarrow> (Inl (AttributeError ''source_stage''), h)
        | Some source_stage \<Rightarrow>
           (let steps = steps @
                  [CodeBuildStep ''GitSecrets'' source_stage environment
                     ''cdk-pipelines-git-secrets''
                     [''SECRETS_FOLDER=git-secrets'',
                      ''mkdir $SECRETS_FOLDER'',
                      ''git clone --quiet https://github.com/awslabs/git-secrets.git $SECRETS_FOLDER'',
                      ''cd $SECRETS_FOLDER'',
                      ''make install'',
                      ''cd .. && rm -rf $SECRETS_FOLDER'']
                     [''git secrets --register-aws'',
                      ''git secrets --scan'',
                      ''echo No vulnerabilities detected. Have a really nice day!'']];
                steps = steps @
                  [CodeBuildStep ''Linter'' source_stage environment
                     ''cdk-pipelines-linter''
                     install_steps
                     [''python3 -m pylint cdk_workshop || true'',
                      ''python3 -m pylint tests || true'',
                      ''python3 -m pylint app.py || true'']];
                steps = steps @
                  [CodeBuildStep ''UnitTests'' source_stage environment
                     ''cdk-pipelines-unit-tests''
                     install_steps
                     [''python3 -m pytest'']];
                steps = steps @
                  [CodeBuildStep ''CfnNag'' source_stage environment
                     ''cdk-pipelines-cfn-nag''
                     (install_steps @ [''gem install cfn-nag''])
                     [''ACCOUNT=$(aws sts get-caller-identity | jq -r '.Account')'',
                      ''STACK_NAME=cdk-pipeline-scan'',
                      ''cdk synth $STACK_NAME -c account=$ACCOUNT -c environmentType=$ENV_TYPE > template.yaml'',
                      ''cfn_nag_scan --input-path template.yaml'']];
                steps = steps @
                  [CodeBuildStep ''DependencyAudit'' source_stage environment
                     ''cdk-pipelines-audit''
                     install_steps
                     [''safety check -r requirements.txt'',
                      ''safety check -r requirements-dev.txt'']]
            in (Inr steps, h)))"

section \<open>PipelineStack.__init__ (lines 22 to 64)\<close>

text \<open>
  Lines 25 and 26, the context resolver: the environment tag is the value of the key
  \<^verbatim>\<open>environmentType\<close>, or \<^verbatim>\<open>"qa"\<close> when that value is falsy; the settings bundle is
  whatever the context holds under the tag, \<^verbatim>\<open>None\<close> when it holds nothing.
\<close>

definition context_resolver :: "node_context \<Rightarrow> py_error + (pyval \<times> pyval)" where
  "context_resolver ctx =
     bind_err (try_get_context ctx (PyStr ''environmentType'')) (\<lambda>v.
       let environment_type = py_or v (PyStr ''qa'')
       in bind_err (try_get_context ctx environment_type) (\<lambda>c.
            Inr (environment_type, c)))"

text \<open>Lines 29 to 34: the arguments are evaluated left to right, then the source is built.\<close>

definition source_binding :: "pyval \<Rightarrow> py_error + CodePipelineSource" where
  "source_binding c =
     bind_err (bind_err (subscript c ''repository'') (\<lambda>r. subscript r ''name'')) (\<lambda>n.
     bind_err (bind_err (subscript c ''repository'') (\<lambda>r. subscript r ''branch'')) (\<lambda>b.
       Inr (git_hub n b (secrets_manager ''github-token''))))"

text \<open>Lines 38 to 53: the synthesis step.\<close>

definition synth_step :: "ref \<Rightarrow> pyval \<Rightarrow> Step" where
  "synth_step source_stage environment_type =
     ShellStep ''Synth'' source_stage
       [(''ENV_TYPE'', environment_type)]
       [''npm install -g aws-cdk'',
        ''pip3 install -r requirements.txt'',
        ''pip3 install -r requirements-dev.txt'',
        ''ACCOUNT=$(aws sts get-caller-identity | jq -r .Account)'']
       [''cdk synth -c account=$ACCOUNT -c environmentType=$ENV_TYPE'']"

text \<open>
  The constructor, lines 22 to 64, against a given library. It returns the exception raised,
  if any, the stack object as the constructor left it, and the object store. Line 23 runs
  the Stack constructor on the construct id. The source is built at line 29 once its
  arguments are evaluated, and so is the pipeline, registered at line 36; the deployment
  stage is added at line 57.
\<close>

definition PipelineStack_init_with ::
  "library \<Rightarrow> node_context \<Rightarrow> string \<Rightarrow> obj list
     \<Rightarrow> py_error option \<times> PipelineStack \<times> obj list" where
  "PipelineStack_init_with lib ctx construct_id h =
    (let self = \<lparr>self_context = None, self_source_stage = None, pipeline = None\<rparr>
     in case Stack_init lib construct_id of
          Some e \<Rightarrow> (Some e, self, h)
        | None \<Rightarrow>
     (case context_resolver ctx of
          Inl e \<Rightarrow> (Some e, self, h)
        | Inr (environment_type, c) \<Rightarrow>
           (let self = self\<lparr>self_context := Some c\<rparr>
            in case source_binding c of
                 Inl e \<Rightarrow> (Some e, self, h)
               | Inr src \<Rightarrow>
             (case git_hub_check lib (repo_string src) (branch src) of
                 Some e \<Rightarrow> (Some e, self, h)
               | None \<Rightarrow>
                  (let (r, h) = alloc (OSource src) h;
                       self = self\<lparr>self_source_stage := Some r\<rparr>
                   in case bind_err (subscript c ''pipeline'') (\<lambda>p. subscript p ''name'') of
                        Inl e \<Rightarrow> (Some e, self, h)
                      | Inr name \<Rightarrow>
                    (case CodePipeline_check lib name of
                        Some e \<Rightarrow> (Some e, self, h)
                      | None \<Rightarrow>
                         (let p = \<lparr>pipeline_name = name,
                                   synth = synth_step r environment_type,
                                   stages = []\<rparr>;
                              self = self\<lparr>pipeline := Some p\<rparr>
                          in case create_code_quality_steps self h of
                               (Inl e, h) \<Rightarrow> (Some e, self, h)
                             | (Inr quality_steps, h) \<Rightarrow>
                                (None,
                                 self\<lparr>pipeline := Some (add_stage p
                                    \<lparr>stage_construct_id = ''QA'',
                                     stage_environment_type = PyStr ''qa''\<rparr>
                                    quality_steps)\<rparr>,
                                 h))))))))"

text \<open>
  The constructor when the library refuses nothing: what lines 25 to 64 do by themselves,
  once the Stack constructor has returned.
\<close>

definition PipelineStack_init ::
  "node_context \<Rightarrow> string \<Rightarrow> obj list \<Rightarrow> py_error option \<times> PipelineStack \<times> obj list" where
  "PipelineStack_init ctx construct_id h =
     PipelineStack_init_with accepting_library ctx construct_id h"

section \<open>Notions the properties are stated with\<close>

text \<open>
  A command is exit-code-tolerant when it ends in \<^verbatim>\<open>|| true\<close>: the shell then reports
  success whatever the command before it returned.
\<close>

definition exit_code_tolerant :: "string \<Rightarrow> bool" where
  "exit_code_tolerant c = (take 7 (rev c) = rev ''|| true'')"

text \<open>
  The order in which the pipelines library runs what it is given: within a step the install
  commands, then the commands; within a pipeline the synthesis step, then for each stage
  its pre-steps, then the stage.
\<close>

definition step_script :: "Step \<Rightarrow> string list" where
  "step_script s = install_commands s @ commands s"

datatype pipeline_item = RunStep Step | Deploy DeployStage

definition run_order :: "CodePipeline \<Rightarrow> pipeline_item list" where
  "run_order p =
     RunStep (synth p) # concat (map (\<lambda>d. map RunStep (pre d) @ [Deploy (stage d)]) (stages p))"

text \<open>
  The structure of a pipeline definition: every address replaced by the object it names, so
  that two definitions built in different stores can be compared.
\<close>

type_synonym step_structure =
  "StepClass \<times> string \<times> obj option \<times> (string \<times> pyval) list \<times> obj option option
     \<times> string option \<times> string list \<times> string list"

definition step_structure :: "obj list \<Rightarrow> Step \<Rightarrow> step_structure" where
  "step_structure h s =
     (step_class s, step_id s, deref h (input s), env s,
      map_option (deref h) (build_environment s),
      project_name s, install_commands s, commands s)"

definition pipeline_structure ::
  "obj list \<Rightarrow> CodePipeline \<Rightarrow> pyval \<times> step_structure \<times> (DeployStage \<times> step_structure list) list" where
  "pipeline_structure h p =
     (pipeline_name p, step_structure h (synth p),
      map (\<lambda>d. (stage d, map (step_structure h) (pre d))) (stages p))"

definition assembled ::
  "py_error option \<times> PipelineStack \<times> obj list \<Rightarrow>
     py_error option \<times> (pyval \<times> step_structure \<times> (DeployStage \<times> step_structure list) list) option" where
  "assembled out =
     (case out of (err, self, h) \<Rightarrow> (err, map_option (pipeline_structure h) (pipeline self)))"

text \<open>What is read off an assembled stack: the names in running order, the stages.\<close>

definition item_id :: "pipeline_item \<Rightarrow> string" where
  "item_id i = (case i of RunStep s \<Rightarrow> step_id s | Deploy d \<Rightarrow> stage_construct_id d)"

definition deploy_stages :: "PipelineStack \<Rightarrow> DeployStage list" where
  "deploy_stages self = (case pipeline self of None \<Rightarrow> [] | Some p \<Rightarrow> map stage (stages p))"

text \<open>Configurations used as concrete inputs.\<close>

definition acme_bundle :: pyval where
  "acme_bundle =
     PyDict [(''repository'', PyDict [(''name'', PyStr ''acme/app''), (''branch'', PyStr ''main'')]),
             (''pipeline'', PyDict [(''name'', PyStr ''acme-qa'')])]"

definition acme_context :: node_context where
  "acme_context = [(''qa'', acme_bundle)]"

definition prod_bundle :: pyval where
  "prod_bundle =
     PyDict [(''repository'', PyDict [(''name'', PyStr ''acme/app''), (''branch'', PyStr ''release'')]),
             (''pipeline'', PyDict [(''name'', PyStr ''acme-prod'')])]"

definition prod_context :: node_context where
  "prod_context = [(''environmentType'', PyStr ''prod''), (''prod'', prod_bundle)]"


definition empty_override_context :: node_context where
  "empty_override_context = [(''environmentType'', PyStr []), (''qa'', acme_bundle)]"

definition a_stack :: PipelineStack where
  "a_stack = \<lparr>self_context = Some acme_bundle, self_source_stage = Some 0, pipeline = None\<rparr>"

definition a_store :: "obj list" where
  "a_store =
     [OSource (git_hub (PyStr ''acme/app'') (PyStr ''main'') (secrets_manager ''github-token''))]"

section \<open>The quality gates\<close>

lemma quality_steps_result:
  assumes "self_source_stage self = Some src"
  shows "\<exists>steps. create_code_quality_steps self h =
           (Inr steps, h @ [OEnv \<lparr>build_image = STANDARD_7_0, compute_type = SMALL, privileged = True\<rparr>])
         \<and> map step_id steps = [''GitSecrets'', ''Linter'', ''UnitTests'', ''CfnNag'', ''DependencyAudit'']
         \<and> map input steps = [src, src, src, src, src]
         \<and> map build_environment steps = replicate 5 (Some (length h))"
  using assms
  by (simp add: create_code_quality_steps_def alloc_def Let_def CodeBuildStep_def numeral_eq_Suc)

lemma quality_steps_props:
  assumes "create_code_quality_steps self h = (Inr gates, h')"
  shows "map step_id gates = [''GitSecrets'', ''Linter'', ''UnitTests'', ''CfnNag'', ''DependencyAudit'']"
    and "self_source_stage self = Some src \<Longrightarrow> map input gates = [src, src, src, src, src]"
    and "map build_environment gates = replicate 5 (Some (length h))"
    and "h' = h @ [OEnv \<lparr>build_image = STANDARD_7_0, compute_type = SMALL, privileged = True\<rparr>]"
  using assms
  by (auto simp add: create_code_quality_steps_def alloc_def Let_def CodeBuildStep_def numeral_eq_Suc
      split: option.splits)

text \<open>
  C2. On a stack whose \<^verbatim>\<open>source_stage\<close> attribute is set, as it is whenever \<^verbatim>\<open>__init__\<close>
  calls it, \<^verbatim>\<open>create_code_quality_steps\<close> returns (it does not raise) exactly five steps,
  named GitSecrets, Linter, UnitTests, CfnNag and DependencyAudit in that order, and the
  input of each is the address held in \<^verbatim>\<open>self.source_stage\<close>: all five take that one
  source instance.
\<close>

theorem quality_steps_five_in_order:
  assumes "self_source_stage self = Some src"
  shows "\<exists>steps h'. create_code_quality_steps self h = (Inr steps, h')
         \<and> length steps = 5
         \<and> map step_id steps = [''GitSecrets'', ''Linter'', ''UnitTests'', ''CfnNag'', ''DependencyAudit'']
         \<and> map input steps = [src, src, src, src, src]"
  using assms
  by (simp add: create_code_quality_steps_def alloc_def Let_def CodeBuildStep_def)

theorem quality_steps_five_in_order_witness:
  "self_source_stage a_stack = Some 0
   \<and> (\<exists>steps h'. create_code_quality_steps a_stack a_store = (Inr steps, h')
         \<and> length steps = 5
         \<and> map step_id steps = [''GitSecrets'', ''Linter'', ''UnitTests'', ''CfnNag'', ''DependencyAudit'']
         \<and> map input steps = [0, 0, 0, 0, 0])"
  using quality_steps_five_in_order [of a_stack 0 a_store]
  by (simp add: a_stack_def)

text \<open>
  C3. Each of the three run commands of the Linter step is exit-code-tolerant, and no run
  command of GitSecrets, UnitTests, CfnNag, DependencyAudit or of the synthesis step is,
  whatever source and environment tag the synthesis step is built with.
\<close>

theorem only_linter_is_exit_code_tolerant:
  assumes "self_source_stage self = Some src"
  shows "\<exists>steps h'. create_code_quality_steps self h = (Inr steps, h')
         \<and> map (\<lambda>s. (step_id s, map exit_code_tolerant (commands s))) steps =
             [(''GitSecrets'', [False, False, False]),
              (''Linter'', [True, True, True]),
              (''UnitTests'', [False]),
              (''CfnNag'', [False, False, False, False]),
              (''DependencyAudit'', [False, False])]
         \<and> step_id (synth_step r t) = ''Synth''
         \<and> map exit_code_tolerant (commands (synth_step r t)) = [False]"
  using assms
  by (simp add: create_code_quality_steps_def alloc_def Let_def CodeBuildStep_def
      ShellStep_def synth_step_def exit_code_tolerant_def)

theorem only_linter_is_exit_code_tolerant_witness:
  "self_source_stage a_stack = Some 0
   \<and> (\<exists>steps h'. create_code_quality_steps a_stack a_store = (Inr steps, h')
         \<and> map (\<lambda>s. (step_id s, map exit_code_tolerant (commands s))) steps =
             [(''GitSecrets'', [False, False, False]),
              (''Linter'', [True, True, True]),
              (''UnitTests'', [False]),
              (''CfnNag'', [False, False, False, False]),
              (''DependencyAudit'', [False, False])]
         \<and> step_id (synth_step 0 (PyStr ''qa'')) = ''Synth''
         \<and> map exit_code_tolerant (commands (synth_step 0 (PyStr ''qa''))) = [False])"
  using only_linter_is_exit_code_tolerant [of a_stack 0 a_store 0 "PyStr ''qa''"]
  by (simp add: a_stack_def)

text \<open>
  C9. One build environment is constructed per call: the store grows by exactly one object,
  the descriptor with image STANDARD_7_0, compute type SMALL and privileged set, and the
  build environment of each of the five steps is the address of that object.
\<close>

theorem gates_share_one_environment:
  assumes "self_source_stage self = Some src"
  shows "\<exists>steps h'. create_code_quality_steps self h = (Inr steps, h')
         \<and> h' = h @ [OEnv \<lparr>build_image = STANDARD_7_0, compute_type = SMALL, privileged = True\<rparr>]
         \<and> map build_environment steps =
             [Some (length h), Some (length h), Some (length h), Some (length h), Some (length h)]
         \<and> deref h' (length h) =
             Some (OEnv \<lparr>build_image = STANDARD_7_0, compute_type = SMALL, privileged = True\<rparr>)"
  using assms
  by (simp add: create_code_quality_steps_def alloc_def Let_def CodeBuildStep_def deref_def)

theorem gates_share_one_environment_witness:
  "self_source_stage a_stack = Some 0
   \<and> (\<exists>steps h'. create_code_quality_steps a_stack a_store = (Inr steps, h')
         \<and> h' = a_store @ [OEnv \<lparr>build_image = STANDARD_7_0, compute_type = SMALL, privileged = True\<rparr>]
         \<and> map build_environment steps = [Some 1, Some 1, Some 1, Some 1, Some 1]
         \<and> deref h' 1 =
             Some (OEnv \<lparr>build_image = STANDARD_7_0, compute_type = SMALL, privileged = True\<rparr>))"
  using gates_share_one_environment [of a_stack 0 a_store]
  by (simp add: a_stack_def a_store_def)

section \<open>What the constructor returns\<close>

text \<open>
  The constructor either stops at the first exception, leaving the stack as far as it got, or
  registers the pipeline with its single stage.
\<close>

lemma with_fail_super:
  assumes "Stack_init lib cid = Some e"
  shows "PipelineStack_init_with lib ctx cid h =
           (Some e, \<lparr>self_context = None, self_source_stage = None, pipeline = None\<rparr>, h)"
  using assms by (simp add: PipelineStack_init_with_def)

lemma with_fail_resolver:
  assumes "Stack_init lib cid = None" and "context_resolver ctx = Inl e"
  shows "PipelineStack_init_with lib ctx cid h =
           (Some e, \<lparr>self_context = None, self_source_stage = None, pipeline = None\<rparr>, h)"
  using assms by (simp add: PipelineStack_init_with_def)

lemma with_fail_source:
  assumes "Stack_init lib cid = None" and "context_resolver ctx = Inr (tag, c)"
    and "source_binding c = Inl e"
  shows "PipelineStack_init_with lib ctx cid h =
           (Some e, \<lparr>self_context = Some c, self_source_stage = None, pipeline = None\<rparr>, h)"
  using assms by (simp add: PipelineStack_init_with_def)

lemma with_fail_git_hub:
  assumes "Stack_init lib cid = None" and "context_resolver ctx = Inr (tag, c)"
    and "source_binding c = Inr src"
    and "git_hub_check lib (repo_string src) (branch src) = Some e"
  shows "PipelineStack_init_with lib ctx cid h =
           (Some e, \<lparr>self_context = Some c, self_source_stage = None, pipeline = None\<rparr>, h)"
  using assms by (simp add: PipelineStack_init_with_def)

lemma with_fail_name:
  assumes "Stack_init lib cid = None" and "context_resolver ctx = Inr (tag, c)"
    and "source_binding c = Inr src"
    and "git_hub_check lib (repo_string src) (branch src) = None"
    and "bind_err (subscript c ''pipeline'') (\<lambda>p. subscript p ''name'') = Inl e"
  shows "PipelineStack_init_with lib ctx cid h =
           (Some e, \<lparr>self_context = Some c, self_source_stage = Some (length h), pipeline = None\<rparr>,
            h @ [OSource src])"
  using assms by (simp add: PipelineStack_init_with_def alloc_def)

lemma with_fail_pipeline:
  assumes "Stack_init lib cid = None" and "context_resolver ctx = Inr (tag, c)"
    and "source_binding c = Inr src"
    and "git_hub_check lib (repo_string src) (branch src) = None"
    and "bind_err (subscript c ''pipeline'') (\<lambda>p. subscript p ''name'') = Inr name"
    and "CodePipeline_check lib name = Some e"
  shows "PipelineStack_init_with lib ctx cid h =
           (Some e, \<lparr>self_context = Some c, self_source_stage = Some (length h), pipeline = None\<rparr>,
            h @ [OSource src])"
  using assms by (simp add: PipelineStack_init_with_def alloc_def)

lemma with_result:
  assumes "Stack_init lib cid = None" and "context_resolver ctx = Inr (tag, c)"
    and "source_binding c = Inr src"
    and "git_hub_check lib (repo_string src) (branch src) = None"
    and "bind_err (subscript c ''pipeline'') (\<lambda>p. subscript p ''name'') = Inr name"
    and "CodePipeline_check lib name = None"
  shows "\<exists>gates.
           create_code_quality_steps
             \<lparr>self_context = Some c, self_source_stage = Some (length h),
              pipeline = Some \<lparr>pipeline_name = name, synth = synth_step (length h) tag, stages = []\<rparr>\<rparr>
             (h @ [OSource src])
           = (Inr gates, h @ [OSource src,
                OEnv \<lparr>build_image = STANDARD_7_0, compute_type = SMALL, privileged = True\<rparr>])
         \<and> PipelineStack_init_with lib ctx cid h =
             (None,
              \<lparr>self_context = Some c, self_source_stage = Some (length h),
               pipeline = Some \<lparr>pipeline_name = name, synth = synth_step (length h) tag,
                 stages = [\<lparr>stage = \<lparr>stage_construct_id = ''QA'', stage_environment_type = PyStr ''qa''\<rparr>,
                            pre = gates\<rparr>]\<rparr>\<rparr>,
              h @ [OSource src,
                OEnv \<lparr>build_image = STANDARD_7_0, compute_type = SMALL, privileged = True\<rparr>])"
proof -
  let ?self = "\<lparr>self_context = Some c, self_source_stage = Some (length h),
              pipeline = Some \<lparr>pipeline_name = name, synth = synth_step (length h) tag, stages = []\<rparr>\<rparr>"
  have "self_source_stage ?self = Some (length h)" by simp
  from quality_steps_result [OF this, of "h @ [OSource src]"]
  obtain gates where g: "create_code_quality_steps ?self (h @ [OSource src]) =
      (Inr gates, (h @ [OSource src]) @ [OEnv \<lparr>build_image = STANDARD_7_0, compute_type = SMALL, privileged = True\<rparr>])"
    by blast
  show ?thesis
    using assms g by (simp add: PipelineStack_init_with_def alloc_def add_stage_def)
qed

lemma with_success:
  assumes "fst (PipelineStack_init_with lib ctx cid h) = None"
  shows "\<exists>tag c src name. Stack_init lib cid = None
           \<and> context_resolver ctx = Inr (tag, c) \<and> source_binding c = Inr src
           \<and> git_hub_check lib (repo_string src) (branch src) = None
           \<and> bind_err (subscript c ''pipeline'') (\<lambda>p. subscript p ''name'') = Inr name
           \<and> CodePipeline_check lib name = None"
proof (cases "Stack_init lib cid")
  case (Some e)
  with assms show ?thesis by (simp add: with_fail_super)
next
  case super: None
  show ?thesis
  proof (cases "context_resolver ctx")
    case (Inl e)
    with assms super show ?thesis by (simp add: with_fail_resolver)
  next
    case (Inr tc)
    obtain tag c where r: "context_resolver ctx = Inr (tag, c)"
      using Inr by (cases tc) simp
    show ?thesis
    proof (cases "source_binding c")
      case (Inl e)
      with assms super r show ?thesis by (simp add: with_fail_source)
    next
      case s: (Inr src)
      show ?thesis
      proof (cases "git_hub_check lib (repo_string src) (branch src)")
        case (Some e)
        with assms super r s show ?thesis by (simp add: with_fail_git_hub)
      next
        case g: None
        show ?thesis
        proof (cases "bind_err (subscript c ''pipeline'') (\<lambda>p. subscript p ''name'')")
          case (Inl e)
          with assms super r s g show ?thesis by (simp add: with_fail_name)
        next
          case n: (Inr name)
          show ?thesis
          proof (cases "CodePipeline_check lib name")
            case (Some e)
            with assms super r s g n show ?thesis by (simp add: with_fail_pipeline)
          next
            case None
            with super r s g n show ?thesis by simp
          qed
        qed
      qed
    qed
  qed
qed

text \<open>
  The same, when the library refuses nothing.
\<close>

lemma init_fail_resolver:
  assumes "context_resolver ctx = Inl e"
  shows "PipelineStack_init ctx cid h =
           (Some e, \<lparr>self_context = None, self_source_stage = None, pipeline = None\<rparr>, h)"
  using assms
  by (simp add: PipelineStack_init_def with_fail_resolver accepting_library_def)

lemma init_fail_source:
  assumes "context_resolver ctx = Inr (tag, c)" and "source_binding c = Inl e"
  shows "PipelineStack_init ctx cid h =
           (Some e, \<lparr>self_context = Some c, self_source_stage = None, pipeline = None\<rparr>, h)"
  using assms
  by (simp add: PipelineStack_init_def with_fail_source accepting_library_def)

lemma init_fail_name:
  assumes "context_resolver ctx = Inr (tag, c)" and "source_binding c = Inr src"
    and "bind_err (subscript c ''pipeline'') (\<lambda>p. subscript p ''name'') = Inl e"
  shows "PipelineStack_init ctx cid h =
           (Some e, \<lparr>self_context = Some c, self_source_stage = Some (length h), pipeline = None\<rparr>,
            h @ [OSource src])"
  using assms
  by (simp add: PipelineStack_init_def with_fail_name accepting_library_def)

lemma init_result:
  assumes "context_resolver ctx = Inr (tag, c)" and "source_binding c = Inr src"
    and "bind_err (subscript c ''pipeline'') (\<lambda>p. subscript p ''name'') = Inr name"
  shows "\<exists>gates.
           create_code_quality_steps
             \<lparr>self_context = Some c, self_source_stage = Some (length h),
              pipeline = Some \<lparr>pipeline_name = name, synth = synth_step (length h) tag, stages = []\<rparr>\<rparr>
             (h @ [OSource src])
           = (Inr gates, h @ [OSource src,
                OEnv \<lparr>build_image = STANDARD_7_0, compute_type = SMALL, privileged = True\<rparr>])
         \<and> PipelineStack_init ctx cid h =
             (None,
              \<lparr>self_context = Some c, self_source_stage = Some (length h),
               pipeline = Some \<lparr>pipeline_name = name, synth = synth_step (length h) tag,
                 stages = [\<lparr>stage = \<lparr>stage_construct_id = ''QA'', stage_environment_type = PyStr ''qa''\<rparr>,
                            pre = gates\<rparr>]\<rparr>\<rparr>,
              h @ [OSource src,
                OEnv \<lparr>build_image = STANDARD_7_0, compute_type = SMALL, privileged = True\<rparr>])"
  unfolding PipelineStack_init_def
  using with_result [of accepting_library cid ctx tag c src name h] assms
  by (simp add: accepting_library_def)

lemma init_success:
  assumes "fst (PipelineStack_init ctx cid h) = None"
  shows "\<exists>tag c src name. context_resolver ctx = Inr (tag, c) \<and> source_binding c = Inr src
           \<and> bind_err (subscript c ''pipeline'') (\<lambda>p. subscript p ''name'') = Inr name"
  using with_success [of accepting_library ctx cid h] assms
  unfolding PipelineStack_init_def by blast

lemma resolver_error: "context_resolver ctx = Inl e \<Longrightarrow> e = TypeError"
  by (auto simp add: context_resolver_def try_get_context_def bind_err_def Let_def
      split: pyval.splits sum.splits)

lemma resolver_acme: "context_resolver acme_context = Inr (PyStr ''qa'', acme_bundle)"
  by (simp add: context_resolver_def try_get_context_def bind_err_def py_or_def acme_context_def)

lemma source_acme:
  "source_binding acme_bundle =
     Inr (git_hub (PyStr ''acme/app'') (PyStr ''main'') (secrets_manager ''github-token''))"
  by (simp add: source_binding_def subscript_def bind_err_def acme_bundle_def)

lemma name_acme:
  "bind_err (subscript acme_bundle ''pipeline'') (\<lambda>p. subscript p ''name'') = Inr (PyStr ''acme-qa'')"
  by (simp add: subscript_def bind_err_def acme_bundle_def)

lemma init_acme_ok: "fst (PipelineStack_init acme_context cid h) = None"
  using init_result [OF resolver_acme source_acme name_acme, of h cid] by auto

lemma resolver_prod: "context_resolver prod_context = Inr (PyStr ''prod'', prod_bundle)"
  by (simp add: context_resolver_def try_get_context_def bind_err_def py_or_def prod_context_def)

lemma source_prod:
  "source_binding prod_bundle =
     Inr (git_hub (PyStr ''acme/app'') (PyStr ''release'') (secrets_manager ''github-token''))"
  by (simp add: source_binding_def subscript_def bind_err_def prod_bundle_def)

lemma name_prod:
  "bind_err (subscript prod_bundle ''pipeline'') (\<lambda>p. subscript p ''name'') = Inr (PyStr ''acme-prod'')"
  by (simp add: subscript_def bind_err_def prod_bundle_def)

text \<open>
  What the CDK library accepts and refuses of the values used below.
\<close>

lemma cdk_accepts_acme:
  "Stack_init cdk_library ''PipelineStack'' = None"
  "Stack_init cdk_library ''Second'' = None"
  "git_hub_check cdk_library (PyStr ''acme/app'') b = None"
  "CodePipeline_check cdk_library (PyStr ''acme-qa'') = None"
  by (simp_all add: cdk_library_def valid_stack_name_def)

lemma cdk_refuses_bad_id: "Stack_init cdk_library ''bad id'' = Some RuntimeError"
  by (simp add: cdk_library_def valid_stack_name_def)



text \<open>
  The quality gates of two runs have the same structure, and the outcome of a run that gets
  past line 23 is fixed by the library and the context.
\<close>

lemma fst_assembled: "fst (assembled out) = fst out"
  by (cases out) (simp add: assembled_def)

lemma gates_structure:
  assumes "create_code_quality_steps s1 (h1 @ [OSource src]) = (Inr g1, k1)"
    and "create_code_quality_steps s2 (h2 @ [OSource src]) = (Inr g2, k2)"
    and "self_source_stage s1 = Some (length h1)"
    and "self_source_stage s2 = Some (length h2)"
  shows "map (step_structure k1) g1 = map (step_structure k2) g2"
  using assms
  by (auto simp add: create_code_quality_steps_def alloc_def Let_def CodeBuildStep_def
      step_structure_def deref_def nth_append)

lemma with_outcome:
  "\<exists>out. (\<forall>cid h. Stack_init lib cid = None \<longrightarrow>
              assembled (PipelineStack_init_with lib ctx cid h) = out)
         \<and> ((fst out = None) = (snd out \<noteq> None))"
proof (cases "context_resolver ctx")
  case (Inl e)
  then have "\<forall>cid h. Stack_init lib cid = None \<longrightarrow>
      assembled (PipelineStack_init_with lib ctx cid h) = (Some e, None)"
    by (simp add: with_fail_resolver assembled_def)
  then show ?thesis by (intro exI [of _ "(Some e, None)"]) simp
next
  case (Inr tc)
  obtain tag c where r: "context_resolver ctx = Inr (tag, c)"
    using Inr by (cases tc) simp
  show ?thesis
  proof (cases "source_binding c")
    case (Inl e)
    with r have "\<forall>cid h. Stack_init lib cid = None \<longrightarrow>
        assembled (PipelineStack_init_with lib ctx cid h) = (Some e, None)"
      by (simp add: with_fail_source assembled_def)
    then show ?thesis by (intro exI [of _ "(Some e, None)"]) simp
  next
    case s: (Inr src)
    show ?thesis
    proof (cases "git_hub_check lib (repo_string src) (branch src)")
      case (Some e)
      with r s have "\<forall>cid h. Stack_init lib cid = None \<longrightarrow>
          assembled (PipelineStack_init_with lib ctx cid h) = (Some e, None)"
        by (simp add: with_fail_git_hub assembled_def)
      then show ?thesis by (intro exI [of _ "(Some e, None)"]) simp
    next
      case g: None
      show ?thesis
      proof (cases "bind_err (subscript c ''pipeline'') (\<lambda>p. subscript p ''name'')")
        case (Inl e)
        with r s g have "\<forall>cid h. Stack_init lib cid = None \<longrightarrow>
            assembled (PipelineStack_init_with lib ctx cid h) = (Some e, None)"
          by (simp add: with_fail_name assembled_def)
        then show ?thesis by (intro exI [of _ "(Some e, None)"]) simp
      next
        case n: (Inr name)
        show ?thesis
        proof (cases "CodePipeline_check lib name")
          case (Some e)
          with r s g n have "\<forall>cid h. Stack_init lib cid = None \<longrightarrow>
              assembled (PipelineStack_init_with lib ctx cid h) = (Some e, None)"
            by (simp add: with_fail_pipeline assembled_def)
          then show ?thesis by (intro exI [of _ "(Some e, None)"]) simp
        next
          case p: None
          let ?benv = "OEnv \<lparr>build_image = STANDARD_7_0, compute_type = SMALL, privileged = True\<rparr>"
          let ?qa = "\<lparr>stage_construct_id = ''QA'', stage_environment_type = PyStr ''qa''\<rparr>"
          let ?self = "\<lambda>k. \<lparr>self_context = Some c, self_source_stage = Some k,
               pipeline = Some \<lparr>pipeline_name = name, synth = synth_step k tag, stages = []\<rparr>\<rparr>"
          have "self_source_stage (?self 0) = Some (length ([] :: obj list))" by simp
          from quality_steps_result [OF this, of "[] @ [OSource src]"]
          obtain g0 where
            c0: "create_code_quality_steps (?self 0) ([] @ [OSource src])
                   = (Inr g0, ([] @ [OSource src]) @ [?benv])"
            by blast
          let ?out = "(None :: py_error option,
              Some (name, step_structure [OSource src, ?benv] (synth_step 0 tag),
                    [(?qa, map (step_structure [OSource src, ?benv]) g0)]))"
          have "assembled (PipelineStack_init_with lib ctx cid h) = ?out"
            if super: "Stack_init lib cid = None" for cid h
          proof -
            from with_result [OF super r s g n p, of h]
            obtain g1 where
              c1: "create_code_quality_steps (?self (length h)) (h @ [OSource src])
                     = (Inr g1, h @ [OSource src, ?benv])"
              and i1: "PipelineStack_init_with lib ctx cid h =
                (None,
                 \<lparr>self_context = Some c, self_source_stage = Some (length h),
                  pipeline = Some \<lparr>pipeline_name = name, synth = synth_step (length h) tag,
                    stages = [\<lparr>stage = ?qa, pre = g1\<rparr>]\<rparr>\<rparr>,
                 h @ [OSource src, ?benv])"
              by blast
            have gates: "map (step_structure (h @ [OSource src, ?benv])) g1
                = map (step_structure [OSource src, ?benv]) g0"
              using gates_structure [OF c1 c0] by simp
            have synth: "step_structure (h @ [OSource src, ?benv]) (synth_step (length h) tag)
                = step_structure [OSource src, ?benv] (synth_step 0 tag)"
              by (simp add: step_structure_def synth_step_def ShellStep_def deref_def nth_append)
            show ?thesis
              using gates synth by (simp add: i1 assembled_def pipeline_structure_def)
          qed
          then show ?thesis by (intro exI [of _ ?out]) simp
        qed
      qed
    qed
  qed
qed

section \<open>Resolving the context\<close>

text \<open>
  C5. When the context has no \<^verbatim>\<open>environmentType\<close> key, the resolver yields the tag
  \<^verbatim>\<open>"qa"\<close> and whatever the context holds under \<^verbatim>\<open>"qa"\<close>. For the context of the example
  (one bundle under \<^verbatim>\<open>"qa"\<close>, no override) it yields \<^verbatim>\<open>"qa"\<close> and that bundle, and the
  constructor registers a pipeline named \<^verbatim>\<open>"acme-qa"\<close> that runs Synth, the five quality
  gates and then the stage QA.
\<close>

theorem default_tag_is_qa:
  "(map_of ctx ''environmentType'' = None \<longrightarrow>
      context_resolver ctx =
        Inr (PyStr ''qa'', case map_of ctx ''qa'' of None \<Rightarrow> PyNone | Some b \<Rightarrow> b))
   \<and> map_of acme_context ''environmentType'' = None
   \<and> context_resolver acme_context = Inr (PyStr ''qa'', acme_bundle)
   \<and> (\<exists>self h' p. PipelineStack_init acme_context cid h = (None, self, h')
         \<and> pipeline self = Some p
         \<and> pipeline_name p = PyStr ''acme-qa''
         \<and> map item_id (run_order p) =
             [''Synth'', ''GitSecrets'', ''Linter'', ''UnitTests'', ''CfnNag'', ''DependencyAudit'', ''QA''])"
proof -
  have general: "map_of ctx ''environmentType'' = None \<longrightarrow>
      context_resolver ctx =
        Inr (PyStr ''qa'', case map_of ctx ''qa'' of None \<Rightarrow> PyNone | Some b \<Rightarrow> b)"
    by (simp add: context_resolver_def try_get_context_def bind_err_def py_or_def)
  have absent: "map_of acme_context ''environmentType'' = None"
    by (simp add: acme_context_def)
  from init_result [OF resolver_acme source_acme name_acme, of h cid]
  obtain gates where
    g: "create_code_quality_steps
          \<lparr>self_context = Some acme_bundle, self_source_stage = Some (length h),
           pipeline = Some \<lparr>pipeline_name = PyStr ''acme-qa'',
             synth = synth_step (length h) (PyStr ''qa''), stages = []\<rparr>\<rparr>
          (h @ [OSource (git_hub (PyStr ''acme/app'') (PyStr ''main'') (secrets_manager ''github-token''))])
        = (Inr gates,
           h @ [OSource (git_hub (PyStr ''acme/app'') (PyStr ''main'') (secrets_manager ''github-token'')),
                OEnv \<lparr>build_image = STANDARD_7_0, compute_type = SMALL, privileged = True\<rparr>])"
    and i: "PipelineStack_init acme_context cid h =
        (None,
         \<lparr>self_context = Some acme_bundle, self_source_stage = Some (length h),
          pipeline = Some \<lparr>pipeline_name = PyStr ''acme-qa'',
            synth = synth_step (length h) (PyStr ''qa''),
            stages = [\<lparr>stage = \<lparr>stage_construct_id = ''QA'', stage_environment_type = PyStr ''qa''\<rparr>,
                       pre = gates\<rparr>]\<rparr>\<rparr>,
         h @ [OSource (git_hub (PyStr ''acme/app'') (PyStr ''main'') (secrets_manager ''github-token'')),
              OEnv \<lparr>build_image = STANDARD_7_0, compute_type = SMALL, privileged = True\<rparr>])"
    by blast
  from quality_steps_props [OF g]
  have names: "map step_id gates =
      [''GitSecrets'', ''Linter'', ''UnitTests'', ''CfnNag'', ''DependencyAudit'']"
    by simp
  have order: "map item_id (run_order \<lparr>pipeline_name = PyStr ''acme-qa'',
            synth = synth_step (length h) (PyStr ''qa''),
            stages = [\<lparr>stage = \<lparr>stage_construct_id = ''QA'', stage_environment_type = PyStr ''qa''\<rparr>,
                       pre = gates\<rparr>]\<rparr>) =
      [''Synth'', ''GitSecrets'', ''Linter'', ''UnitTests'', ''CfnNag'', ''DependencyAudit'', ''QA'']"
    using names
    by (simp add: run_order_def item_id_def synth_step_def ShellStep_def comp_def)
  show ?thesis
    using general absent resolver_acme i order by simp
qed

theorem default_tag_is_qa_witness:
  "map_of acme_context ''environmentType'' = None
   \<and> context_resolver acme_context =
        Inr (PyStr ''qa'', case map_of acme_context ''qa'' of None \<Rightarrow> PyNone | Some b \<Rightarrow> b)"
  using default_tag_is_qa [of acme_context "''PipelineStack''" "[]"]
  by (simp add: acme_context_def)

text \<open>
  C10. When the context holds a falsy value under \<^verbatim>\<open>environmentType\<close> (the empty string,
  \<^verbatim>\<open>None\<close>, \<^verbatim>\<open>False\<close>, 0, an empty list or dict), the resolver yields the tag
  \<^verbatim>\<open>"qa"\<close> all the same: the default replaces every falsy value, not only a missing key.
\<close>

theorem falsy_override_resolves_to_qa:
  assumes "map_of ctx ''environmentType'' = Some v" and "\<not> truthy v"
  shows "context_resolver ctx =
           Inr (PyStr ''qa'', case map_of ctx ''qa'' of None \<Rightarrow> PyNone | Some b \<Rightarrow> b)"
  using assms
  by (simp add: context_resolver_def try_get_context_def bind_err_def py_or_def)

theorem falsy_override_resolves_to_qa_witness:
  "map_of empty_override_context ''environmentType'' = Some (PyStr [])
   \<and> \<not> truthy (PyStr [])
   \<and> context_resolver empty_override_context = Inr (PyStr ''qa'', acme_bundle)"
  using falsy_override_resolves_to_qa [of empty_override_context "PyStr []"]
  by (simp add: empty_override_context_def)




text \<open>
  C4, as stated, fails: nothing validates the bundle. On the empty context the resolver
  returns normally with the tag \<^verbatim>\<open>"qa"\<close> and the bundle \<^verbatim>\<open>None\<close>, which is assigned to
  \<^verbatim>\<open>self.context\<close>; the constructor then stops at line 30 with the TypeError that
  subscripting \<^verbatim>\<open>None\<close> raises.
\<close>

theorem missing_bundle_is_not_validated:
  "context_resolver [] = Inr (PyStr ''qa'', PyNone)
   \<and> subscript PyNone ''repository'' = Inl TypeError
   \<and> PipelineStack_init [] ''PipelineStack'' [] =
       (Some TypeError,
        \<lparr>self_context = Some PyNone, self_source_stage = None, pipeline = None\<rparr>, [])"
  by (simp add: PipelineStack_init_def PipelineStack_init_with_def accepting_library_def
      context_resolver_def try_get_context_def bind_err_def
      py_or_def source_binding_def subscript_def)

text \<open>
  C4, as amended. When the resolved tag has no bundle (the lookup gives \<^verbatim>\<open>None\<close>, or the
  tag is not a string and the lookup itself is refused), the constructor raises TypeError
  before anything is built: no pipeline is registered and the object store is unchanged.
\<close>

theorem missing_bundle_raises_type_error:
  assumes "context_resolver ctx = Inr (tag, PyNone) \<or> context_resolver ctx = Inl e"
  shows "fst (PipelineStack_init ctx cid h) = Some TypeError
         \<and> pipeline (fst (snd (PipelineStack_init ctx cid h))) = None
         \<and> snd (snd (PipelineStack_init ctx cid h)) = h"
  using assms
proof
  assume "context_resolver ctx = Inr (tag, PyNone)"
  moreover have "source_binding PyNone = Inl TypeError"
    by (simp add: source_binding_def subscript_def bind_err_def)
  ultimately show ?thesis by (simp add: init_fail_source)
next
  assume "context_resolver ctx = Inl e"
  then show ?thesis using resolver_error [of ctx e] by (simp add: init_fail_resolver)
qed

theorem missing_bundle_raises_type_error_witness:
  "(context_resolver [] = Inr (PyStr ''qa'', PyNone) \<or> context_resolver [] = Inl TypeError)
   \<and> fst (PipelineStack_init [] ''PipelineStack'' []) = Some TypeError
   \<and> pipeline (fst (snd (PipelineStack_init [] ''PipelineStack'' []))) = None
   \<and> snd (snd (PipelineStack_init [] ''PipelineStack'' [])) = []"
proof -
  have r: "context_resolver [] = Inr (PyStr ''qa'', PyNone)"
    by (simp add: context_resolver_def try_get_context_def bind_err_def py_or_def)
  then have "context_resolver [] = Inr (PyStr ''qa'', PyNone) \<or> context_resolver [] = Inl TypeError"
    by simp
  from missing_bundle_raises_type_error [OF this, of "''PipelineStack''" "[]"] r
  show ?thesis by simp
qed

section \<open>The assembled pipeline\<close>

text \<open>
  C6. Whenever the constructor completes, the synthesis step of the registered pipeline takes
  as input the address in \<^verbatim>\<open>self.source_stage\<close>, which names the source built from the
  bundle; its environment maps \<^verbatim>\<open>ENV_TYPE\<close> to the resolved tag; its install commands
  are the three tool installations followed by the resolution of \<^verbatim>\<open>ACCOUNT\<close>; its only
  command is the \<^verbatim>\<open>cdk synth\<close> invocation that passes \<^verbatim>\<open>$ACCOUNT\<close> and
  \<^verbatim>\<open>$ENV_TYPE\<close>; and the step runs the install commands first.
\<close>

theorem synth_step_descriptor:
  assumes "fst (PipelineStack_init ctx cid h) = None"
  shows "\<exists>tag c p r src.
           context_resolver ctx = Inr (tag, c)
           \<and> pipeline (fst (snd (PipelineStack_init ctx cid h))) = Some p
           \<and> self_source_stage (fst (snd (PipelineStack_init ctx cid h))) = Some r
           \<and> source_binding c = Inr src
           \<and> deref (snd (snd (PipelineStack_init ctx cid h))) r = Some (OSource src)
           \<and> input (synth p) = r
           \<and> map_of (env (synth p)) ''ENV_TYPE'' = Some tag
           \<and> install_commands (synth p) =
               [''npm install -g aws-cdk'',
                ''pip3 install -r requirements.txt'',
                ''pip3 install -r requirements-dev.txt'',
                ''ACCOUNT=$(aws sts get-caller-identity | jq -r .Account)'']
           \<and> commands (synth p) =
               [''cdk synth -c account=$ACCOUNT -c environmentType=$ENV_TYPE'']
           \<and> step_script (synth p) =
               [''npm install -g aws-cdk'',
                ''pip3 install -r requirements.txt'',
                ''pip3 install -r requirements-dev.txt'',
                ''ACCOUNT=$(aws sts get-caller-identity | jq -r .Account)'',
                ''cdk synth -c account=$ACCOUNT -c environmentType=$ENV_TYPE'']"
proof -
  from init_success [OF assms]
  obtain tag c src name where r: "context_resolver ctx = Inr (tag, c)"
    and s: "source_binding c = Inr src"
    and n: "bind_err (subscript c ''pipeline'') (\<lambda>p. subscript p ''name'') = Inr name"
    by blast
  from init_result [OF r s n, of h cid]
  obtain gates where
    i: "PipelineStack_init ctx cid h =
        (None,
         \<lparr>self_context = Some c, self_source_stage = Some (length h),
          pipeline = Some \<lparr>pipeline_name = name, synth = synth_step (length h) tag,
            stages = [\<lparr>stage = \<lparr>stage_construct_id = ''QA'', stage_environment_type = PyStr ''qa''\<rparr>,
                       pre = gates\<rparr>]\<rparr>\<rparr>,
         h @ [OSource src,
              OEnv \<lparr>build_image = STANDARD_7_0, compute_type = SMALL, privileged = True\<rparr>])"
    by blast
  show ?thesis
    by (simp add: i r s synth_step_def ShellStep_def step_script_def deref_def nth_append)
qed

theorem synth_step_descriptor_witness:
  "fst (PipelineStack_init acme_context ''PipelineStack'' []) = None
   \<and> (\<exists>tag c p r src.
           context_resolver acme_context = Inr (tag, c)
           \<and> pipeline (fst (snd (PipelineStack_init acme_context ''PipelineStack'' []))) = Some p
           \<and> self_source_stage (fst (snd (PipelineStack_init acme_context ''PipelineStack'' []))) = Some r
           \<and> source_binding c = Inr src
           \<and> deref (snd (snd (PipelineStack_init acme_context ''PipelineStack'' []))) r = Some (OSource src)
           \<and> input (synth p) = r
           \<and> map_of (env (synth p)) ''ENV_TYPE'' = Some tag
           \<and> install_commands (synth p) =
               [''npm install -g aws-cdk'',
                ''pip3 install -r requirements.txt'',
                ''pip3 install -r requirements-dev.txt'',
                ''ACCOUNT=$(aws sts get-caller-identity | jq -r .Account)'']
           \<and> commands (synth p) =
               [''cdk synth -c account=$ACCOUNT -c environmentType=$ENV_TYPE'']
           \<and> step_script (synth p) =
               [''npm install -g aws-cdk'',
                ''pip3 install -r requirements.txt'',
                ''pip3 install -r requirements-dev.txt'',
                ''ACCOUNT=$(aws sts get-caller-identity | jq -r .Account)'',
                ''cdk synth -c account=$ACCOUNT -c environmentType=$ENV_TYPE''])"
  using synth_step_descriptor [OF init_acme_ok, of "''PipelineStack''" "[]"] init_acme_ok
  by simp

text \<open>
  C1, as stated, fails: the stage is built with the literal \<^verbatim>\<open>"qa"\<close>. With the override
  \<^verbatim>\<open>"prod"\<close> and a bundle under \<^verbatim>\<open>"prod"\<close>, the resolved tag is \<^verbatim>\<open>"prod"\<close>, the
  constructor completes, and the environment type of the one stage is \<^verbatim>\<open>"qa"\<close>.
\<close>

theorem stage_type_is_not_resolved_tag:
  "context_resolver prod_context = Inr (PyStr ''prod'', prod_bundle)
   \<and> fst (PipelineStack_init prod_context ''PipelineStack'' []) = None
   \<and> map stage_environment_type
        (deploy_stages (fst (snd (PipelineStack_init prod_context ''PipelineStack'' [])))) = [PyStr ''qa'']
   \<and> PyStr ''qa'' \<noteq> PyStr ''prod''"
  using init_result [OF resolver_prod source_prod name_prod, of "[]" "''PipelineStack''"]
  by (auto simp add: resolver_prod deploy_stages_def)

text \<open>
  C1, as amended. Whenever the constructor completes, the registered pipeline has one
  synthesis step, Synth, and one stage, built with the construct id \<^verbatim>\<open>"QA"\<close> and the
  environment type \<^verbatim>\<open>"qa"\<close> whatever the resolved tag; the pre-steps of that stage are the
  five quality gates; the pipeline runs Synth, then the gates, then the stage.
\<close>

theorem one_synth_gates_then_qa_stage:
  assumes "fst (PipelineStack_init ctx cid h) = None"
  shows "\<exists>p gates. pipeline (fst (snd (PipelineStack_init ctx cid h))) = Some p
           \<and> step_id (synth p) = ''Synth''
           \<and> stages p = [\<lparr>stage = \<lparr>stage_construct_id = ''QA'', stage_environment_type = PyStr ''qa''\<rparr>,
                           pre = gates\<rparr>]
           \<and> map step_id gates = [''GitSecrets'', ''Linter'', ''UnitTests'', ''CfnNag'', ''DependencyAudit'']
           \<and> run_order p = RunStep (synth p) # map RunStep gates
                 @ [Deploy \<lparr>stage_construct_id = ''QA'', stage_environment_type = PyStr ''qa''\<rparr>]"
proof -
  from init_success [OF assms]
  obtain tag c src name where r: "context_resolver ctx = Inr (tag, c)"
    and s: "source_binding c = Inr src"
    and n: "bind_err (subscript c ''pipeline'') (\<lambda>p. subscript p ''name'') = Inr name"
    by blast
  from init_result [OF r s n, of h cid]
  obtain gates where
    g: "create_code_quality_steps
          \<lparr>self_context = Some c, self_source_stage = Some (length h),
           pipeline = Some \<lparr>pipeline_name = name, synth = synth_step (length h) tag, stages = []\<rparr>\<rparr>
          (h @ [OSource src])
        = (Inr gates, h @ [OSource src,
             OEnv \<lparr>build_image = STANDARD_7_0, compute_type = SMALL, privileged = True\<rparr>])"
    and i: "PipelineStack_init ctx cid h =
        (None,
         \<lparr>self_context = Some c, self_source_stage = Some (length h),
          pipeline = Some \<lparr>pipeline_name = name, synth = synth_step (length h) tag,
            stages = [\<lparr>stage = \<lparr>stage_construct_id = ''QA'', stage_environment_type = PyStr ''qa''\<rparr>,
                       pre = gates\<rparr>]\<rparr>\<rparr>,
         h @ [OSource src,
              OEnv \<lparr>build_image = STANDARD_7_0, compute_type = SMALL, privileged = True\<rparr>])"
    by blast
  have names: "map step_id gates =
      [''GitSecrets'', ''Linter'', ''UnitTests'', ''CfnNag'', ''DependencyAudit'']"
    using quality_steps_props(1) [OF g] .
  show ?thesis
    using names by (simp add: i run_order_def synth_step_def ShellStep_def)
qed

theorem one_synth_gates_then_qa_stage_witness:
  "fst (PipelineStack_init acme_context ''PipelineStack'' []) = None
   \<and> (\<exists>p gates. pipeline (fst (snd (PipelineStack_init acme_context ''PipelineStack'' []))) = Some p
           \<and> step_id (synth p) = ''Synth''
           \<and> stages p = [\<lparr>stage = \<lparr>stage_construct_id = ''QA'', stage_environment_type = PyStr ''qa''\<rparr>,
                           pre = gates\<rparr>]
           \<and> map step_id gates = [''GitSecrets'', ''Linter'', ''UnitTests'', ''CfnNag'', ''DependencyAudit'']
           \<and> run_order p = RunStep (synth p) # map RunStep gates
                 @ [Deploy \<lparr>stage_construct_id = ''QA'', stage_environment_type = PyStr ''qa''\<rparr>])"
  using one_synth_gates_then_qa_stage [OF init_acme_ok, of "''PipelineStack''" "[]"] init_acme_ok
  by simp

text \<open>
  C7, as stated, fails: the outcome depends on the construct id as well. On the context of
  the example, the constructor completes under the id \<^verbatim>\<open>PipelineStack\<close>, and under the id
  \<^verbatim>\<open>bad id\<close> the Stack constructor of line 23 raises before the context is read, so that
  no pipeline is registered.
\<close>

theorem outcome_depends_on_construct_id:
  "fst (PipelineStack_init_with cdk_library acme_context ''PipelineStack'' []) = None
   \<and> fst (PipelineStack_init_with cdk_library acme_context ''bad id'' []) = Some RuntimeError
   \<and> pipeline (fst (snd (PipelineStack_init_with cdk_library acme_context ''bad id'' []))) = None
   \<and> assembled (PipelineStack_init_with cdk_library acme_context ''PipelineStack'' [])
       \<noteq> assembled (PipelineStack_init_with cdk_library acme_context ''bad id'' [])"
proof -
  from with_result [OF cdk_accepts_acme(1) resolver_acme source_acme _ name_acme cdk_accepts_acme(4),
      of "[]"]
  have ok: "fst (PipelineStack_init_with cdk_library acme_context ''PipelineStack'' []) = None"
    by (auto simp add: git_hub_def cdk_accepts_acme(3))
  have bad: "PipelineStack_init_with cdk_library acme_context ''bad id'' [] =
      (Some RuntimeError, \<lparr>self_context = None, self_source_stage = None, pipeline = None\<rparr>, [])"
    by (rule with_fail_super [OF cdk_refuses_bad_id])
  have "fst (assembled (PipelineStack_init_with cdk_library acme_context ''PipelineStack'' []))
      \<noteq> fst (assembled (PipelineStack_init_with cdk_library acme_context ''bad id'' []))"
    using ok bad by (simp add: fst_assembled)
  then show ?thesis using ok bad by auto
qed

text \<open>
  C7, as amended. Past line 23 the outcome is determined by the context and the library:
  two runs on the same context whose construct ids the Stack constructor accepts, with any
  object stores, raise the same exception or register pipelines of the same structure (same
  name, same steps in the same order with the same commands, same source and build
  environment behind the addresses, same stage); and a run registers a pipeline exactly when
  it raises nothing.
\<close>

theorem assembly_depends_on_configuration_past_line_23:
  assumes "Stack_init lib cid1 = None" and "Stack_init lib cid2 = None"
  shows "assembled (PipelineStack_init_with lib ctx cid1 h1)
           = assembled (PipelineStack_init_with lib ctx cid2 h2)
         \<and> ((fst (assembled (PipelineStack_init_with lib ctx cid1 h1)) = None)
              = (snd (assembled (PipelineStack_init_with lib ctx cid1 h1)) \<noteq> None))"
proof -
  from with_outcome [of lib ctx]
  obtain out where all: "\<forall>cid h. Stack_init lib cid = None \<longrightarrow>
              assembled (PipelineStack_init_with lib ctx cid h) = out"
    and shape: "(fst out = None) = (snd out \<noteq> None)"
    by (elim exE conjE)
  from all assms have "assembled (PipelineStack_init_with lib ctx cid1 h1) = out"
    and "assembled (PipelineStack_init_with lib ctx cid2 h2) = out"
    by simp_all
  with shape show ?thesis by simp
qed

theorem assembly_depends_on_configuration_past_line_23_witness:
  "Stack_init cdk_library ''PipelineStack'' = None
   \<and> Stack_init cdk_library ''Second'' = None
   \<and> assembled (PipelineStack_init_with cdk_library acme_context ''PipelineStack'' [])
       = assembled (PipelineStack_init_with cdk_library acme_context ''Second'' a_store)
   \<and> fst (assembled (PipelineStack_init_with cdk_library acme_context ''PipelineStack'' [])) = None
   \<and> snd (assembled (PipelineStack_init_with cdk_library acme_context ''PipelineStack'' [])) \<noteq> None
   \<and> pipeline (fst (snd (PipelineStack_init_with cdk_library acme_context ''PipelineStack'' [])))
       \<noteq> pipeline (fst (snd (PipelineStack_init_with cdk_library acme_context ''Second'' a_store)))"
proof -
  note inst = assembly_depends_on_configuration_past_line_23
    [OF cdk_accepts_acme(1) cdk_accepts_acme(2), of acme_context "[]" a_store]
  from with_result [OF cdk_accepts_acme(1) resolver_acme source_acme _ name_acme cdk_accepts_acme(4),
      of "[]"]
  obtain g1 where i1: "PipelineStack_init_with cdk_library acme_context ''PipelineStack'' [] =
      (None,
       \<lparr>self_context = Some acme_bundle, self_source_stage = Some (length ([] :: obj list)),
        pipeline = Some \<lparr>pipeline_name = PyStr ''acme-qa'',
          synth = synth_step (length ([] :: obj list)) (PyStr ''qa''),
          stages = [\<lparr>stage = \<lparr>stage_construct_id = ''QA'', stage_environment_type = PyStr ''qa''\<rparr>,
                     pre = g1\<rparr>]\<rparr>\<rparr>,
       [] @ [OSource (git_hub (PyStr ''acme/app'') (PyStr ''main'') (secrets_manager ''github-token'')),
            OEnv \<lparr>build_image = STANDARD_7_0, compute_type = SMALL, privileged = True\<rparr>])"
    by (auto simp add: git_hub_def cdk_accepts_acme(3))
  from with_result [OF cdk_accepts_acme(2) resolver_acme source_acme _ name_acme cdk_accepts_acme(4),
      of a_store]
  obtain g2 where i2: "PipelineStack_init_with cdk_library acme_context ''Second'' a_store =
      (None,
       \<lparr>self_context = Some acme_bundle, self_source_stage = Some (length a_store),
        pipeline = Some \<lparr>pipeline_name = PyStr ''acme-qa'',
          synth = synth_step (length a_store) (PyStr ''qa''),
          stages = [\<lparr>stage = \<lparr>stage_construct_id = ''QA'', stage_environment_type = PyStr ''qa''\<rparr>,
                     pre = g2\<rparr>]\<rparr>\<rparr>,
       a_store @ [OSource (git_hub (PyStr ''acme/app'') (PyStr ''main'') (secrets_manager ''github-token'')),
            OEnv \<lparr>build_image = STANDARD_7_0, compute_type = SMALL, privileged = True\<rparr>])"
    by (auto simp add: git_hub_def cdk_accepts_acme(3))
  have differ: "pipeline (fst (snd (PipelineStack_init_with cdk_library acme_context ''PipelineStack'' [])))
       \<noteq> pipeline (fst (snd (PipelineStack_init_with cdk_library acme_context ''Second'' a_store)))"
  proof -
    have "length a_store = 1" by (simp add: a_store_def)
    then show ?thesis by (simp add: i1 i2 synth_step_def ShellStep_def)
  qed
  have ok: "fst (assembled (PipelineStack_init_with cdk_library acme_context ''PipelineStack'' [])) = None"
    by (simp add: i1 fst_assembled)
  from inst have eq: "assembled (PipelineStack_init_with cdk_library acme_context ''PipelineStack'' [])
       = assembled (PipelineStack_init_with cdk_library acme_context ''Second'' a_store)"
    and iff: "(fst (assembled (PipelineStack_init_with cdk_library acme_context ''PipelineStack'' [])) = None)
       = (snd (assembled (PipelineStack_init_with cdk_library acme_context ''PipelineStack'' [])) \<noteq> None)"
    by (rule conjunct1, rule conjunct2)
  from iff ok
  have some: "snd (assembled (PipelineStack_init_with cdk_library acme_context ''PipelineStack'' [])) \<noteq> None"
    by simp
  show ?thesis
    by (intro conjI) (rule cdk_accepts_acme(1) cdk_accepts_acme(2) eq ok some differ)+
qed

end
